theory Spec2Isabelle
  imports Main "HOL-Library.AList"
begin

section \<open>JSON values\<close>

text \<open>
  Both programs exchange JSON documents. A decoded document is a value of \<open>json\<close>:
  Python's \<open>None\<close> is \<open>JNull\<close>, a \<open>dict\<close> is \<open>JObj\<close> over an association list whose
  keys are pairwise distinct (it stands for an already decoded object). No operation of
  either program computes with a number, so numbers are kept as integers.
\<close>

datatype json =
    JNull
  | JBool bool
  | JNum int
  | JStr string
  | JArr "json list"
  | JObj "(string \<times> json) list"

type_synonym dict = "(string \<times> json) list"

text \<open>\<open>d.get(k)\<close>: the value stored under \<open>k\<close>, or \<open>None\<close> when the key is absent.\<close>

definition dict_get :: "dict \<Rightarrow> string \<Rightarrow> json" where
  "dict_get d k = (case map_of d k of None \<Rightarrow> JNull | Some v \<Rightarrow> v)"

text \<open>Python truthiness of a decoded JSON value, as tested by \<open>not x\<close>.\<close>

fun truthy :: "json \<Rightarrow> bool" where
  "truthy JNull = False"
| "truthy (JBool b) = b"
| "truthy (JNum n) = (n \<noteq> 0)"
| "truthy (JStr s) = (s \<noteq> [])"
| "truthy (JArr xs) = (xs \<noteq> [])"
| "truthy (JObj kvs) = (kvs \<noteq> [])"

section \<open>The cloud API (cloud/app.py)\<close>

subsection \<open>State and errors\<close>

text \<open>
  \<open>HTTPException(status_code, detail)\<close>, the only exception the handlers raise.
\<close>

datatype http_exception = HTTPException (status_code: nat) (detail: string)

text \<open>
  The value stored in \<open>edges\<close> is the two-key dictionary
  \<open>{"site_id": site_id, "edge_id": edge_id}\<close>; \<open>register_edge\<close> is its only writer.
\<close>

record edge_entry =
  entry_site_id :: string
  entry_edge_id :: string

text \<open>
  The three module-level dictionaries. \<open>sites\<close> and \<open>enrollment_tokens\<close> are only read
  by key; \<open>edges\<close> is also enumerated (\<open>list_edges\<close>), so it keeps insertion order.
\<close>

record cloud =
  sites :: "string \<rightharpoonup> dict"
  enrollment_tokens :: "string \<rightharpoonup> string"
  edges :: "(string \<times> edge_entry) list"

definition initial :: cloud where
  "initial = \<lparr>sites = Map.empty, enrollment_tokens = Map.empty, edges = []\<rparr>"

datatype RegisterRequest = RegisterRequest (req_edge_id: string) (req_token: string)

type_synonym response = "http_exception + dict"

subsection \<open>Handlers\<close>

text \<open>
  Each handler takes the state and returns its response together with the state it
  leaves behind; a raised \<open>HTTPException\<close> is \<open>Inl\<close>.
\<close>

definition health :: "cloud \<Rightarrow> response \<times> cloud" where
  "health s = (Inr [(''status'', JStr ''ok'')], s)"

definition set_desired_config :: "string \<Rightarrow> dict \<Rightarrow> cloud \<Rightarrow> response \<times> cloud" where
  "set_desired_config site_id config s =
     (Inr [(''status'', JStr ''saved'')], s\<lparr>sites := (sites s)(site_id \<mapsto> config)\<rparr>)"

definition get_desired_config :: "string \<Rightarrow> cloud \<Rightarrow> response \<times> cloud" where
  "get_desired_config site_id s =
     (case sites s site_id of
        None \<Rightarrow> (Inl (HTTPException 404 ''site not found''), s)
      | Some config \<Rightarrow> (Inr config, s))"

text \<open>
  \<open>uuid.uuid4().hex\<close> is a random draw; the drawn string is the argument \<open>token\<close>.
\<close>

definition generate_token :: "string \<Rightarrow> string \<Rightarrow> cloud \<Rightarrow> response \<times> cloud" where
  "generate_token site_id token s =
     (case sites s site_id of
        None \<Rightarrow> (Inl (HTTPException 404 ''site not found''), s)
      | Some _ \<Rightarrow>
          (Inr [(''token'', JStr token)],
           s\<lparr>enrollment_tokens := (enrollment_tokens s)(token \<mapsto> site_id)\<rparr>))"

definition register_edge :: "RegisterRequest \<Rightarrow> cloud \<Rightarrow> response \<times> cloud" where
  "register_edge req s =
     (let token = req_token req; edge_id = req_edge_id req in
      case enrollment_tokens s token of
        None \<Rightarrow> (Inl (HTTPException 400 ''invalid or expired token''), s)
      | Some site_id \<Rightarrow>
          (Inr [(''site_id'', JStr site_id)],
           s\<lparr>enrollment_tokens := (enrollment_tokens s)(token := None),
             edges := AList.update edge_id
               \<lparr>entry_site_id = site_id, entry_edge_id = edge_id\<rparr> (edges s)\<rparr>))"

definition get_edge_config :: "string \<Rightarrow> cloud \<Rightarrow> response \<times> cloud" where
  "get_edge_config edge_id s =
     (case map_of (edges s) edge_id of
        None \<Rightarrow> (Inl (HTTPException 404 ''edge not registered''), s)
      | Some entry \<Rightarrow>
          (case sites s (entry_site_id entry) of
             None \<Rightarrow> (Inl (HTTPException 404 ''site not found''), s)
           | Some config \<Rightarrow> (Inr config, s)))"

definition entry_dict :: "edge_entry \<Rightarrow> json" where
  "entry_dict e =
     JObj [(''site_id'', JStr (entry_site_id e)), (''edge_id'', JStr (entry_edge_id e))]"

definition list_edges :: "cloud \<Rightarrow> response \<times> cloud" where
  "list_edges s = (Inr [(''edges'', JArr (map (entry_dict \<circ> snd) (edges s)))], s)"

subsection \<open>Sequences of API calls\<close>

text \<open>
  One constructor per route. Handlers run one after the other, each to completion;
  \<open>exec s cs\<close> is the state the calls \<open>cs\<close> leave when they start from \<open>s\<close>.
\<close>

datatype api_call =
    Health
  | SetDesiredConfig string dict
  | GetDesiredConfig string
  | GenerateToken string string
  | RegisterEdge RegisterRequest
  | GetEdgeConfig string
  | ListEdges

fun handle :: "api_call \<Rightarrow> cloud \<Rightarrow> response \<times> cloud" where
  "handle Health s = health s"
| "handle (SetDesiredConfig site_id config) s = set_desired_config site_id config s"
| "handle (GetDesiredConfig site_id) s = get_desired_config site_id s"
| "handle (GenerateToken site_id token) s = generate_token site_id token s"
| "handle (RegisterEdge req) s = register_edge req s"
| "handle (GetEdgeConfig edge_id) s = get_edge_config edge_id s"
| "handle ListEdges s = list_edges s"

fun exec :: "cloud \<Rightarrow> api_call list \<Rightarrow> cloud" where
  "exec s [] = s"
| "exec s (c # cs) = exec (snd (handle c s)) cs"

text \<open>The site an edge is bound to, if any.\<close>

definition bound_site :: "cloud \<Rightarrow> string \<Rightarrow> string option" where
  "bound_site s edge_id = map_option entry_site_id (map_of (edges s) edge_id)"

text \<open>\<open>draws t cs\<close>: how often \<open>uuid4\<close> drew \<open>t\<close> in the calls \<open>cs\<close>.\<close>

fun draws_token :: "string \<Rightarrow> api_call \<Rightarrow> bool" where
  "draws_token t (GenerateToken site_id token) = (token = t)"
| "draws_token t _ = False"

definition draws :: "string \<Rightarrow> api_call list \<Rightarrow> nat" where
  "draws t cs = length (filter (draws_token t) cs)"

text \<open>
  \<open>redemptions t s cs\<close>: how many \<open>register_edge\<close> calls carrying \<open>t\<close> succeed when
  \<open>cs\<close> runs from \<open>s\<close>.
\<close>

fun carries_token :: "string \<Rightarrow> api_call \<Rightarrow> bool" where
  "carries_token t (RegisterEdge req) = (req_token req = t)"
| "carries_token t _ = False"

fun redemptions :: "string \<Rightarrow> cloud \<Rightarrow> api_call list \<Rightarrow> nat" where
  "redemptions t s [] = 0"
| "redemptions t s (c # cs) =
     (if carries_token t c \<and> \<not> isl (fst (handle c s)) then 1 else 0)
     + redemptions t (snd (handle c s)) cs"

text \<open>Successful registrations of one edge identifier among the calls.\<close>

fun registers_edge :: "string \<Rightarrow> api_call \<Rightarrow> bool" where
  "registers_edge e (RegisterEdge req) = (req_edge_id req = e)"
| "registers_edge e _ = False"

fun rebinds :: "string \<Rightarrow> cloud \<Rightarrow> api_call list \<Rightarrow> nat" where
  "rebinds e s [] = 0"
| "rebinds e s (c # cs) =
     (if registers_edge e c \<and> \<not> isl (fst (handle c s)) then 1 else 0)
     + rebinds e (snd (handle c s)) cs"

text \<open>
  Referential integrity of the stores: every active token and every edge binding names
  a site that has a configuration.
\<close>

definition sites_closed :: "cloud \<Rightarrow> bool" where
  "sites_closed s \<longleftrightarrow>
     (\<forall>t site_id. enrollment_tokens s t = Some site_id \<longrightarrow> sites s site_id \<noteq> None) \<and>
     (\<forall>p \<in> set (edges s). sites s (entry_site_id (snd p)) \<noteq> None)"

section \<open>The edge controller (microgrid-vps-prototype-v4/edge/app.py)\<close>

subsection \<open>The HTTP client\<close>

text \<open>
  The edge talks to the cloud through \<open>httpx\<close>. A request is a \<open>POST\<close> of a JSON payload
  or a \<open>GET\<close>; what comes back is either an \<open>httpx.HTTPError\<close> raised by the call itself
  (no connection, timeout: \<open>RequestError\<close>) or a response with its status code and its
  body, \<open>None\<close> when the body is not a JSON document. The network is the parameter
  \<open>client\<close> of the operations below, and each operation also returns the requests it
  sent, in order.
\<close>

datatype http_request = POST string json | GET string

datatype http_outcome = RequestError | Response nat "json option"

type_synonym client = "http_request \<Rightarrow> http_outcome"

definition is_success :: "nat \<Rightarrow> bool" where
  "is_success status \<longleftrightarrow> 200 \<le> status \<and> status \<le> 299"

text \<open>
  The guarded block \<open>resp = await client.post(...); resp.raise_for_status()\<close> under
  \<open>except httpx.HTTPError\<close>: the handler is entered when the call raises or when
  \<open>raise_for_status\<close> raises \<open>HTTPStatusError\<close>, which it does unless the status is 2xx.
\<close>

fun raises_http_error :: "http_outcome \<Rightarrow> bool" where
  "raises_http_error RequestError = True"
| "raises_http_error (Response status body) = (\<not> is_success status)"

text \<open>
  Exceptions that are not \<open>httpx.HTTPError\<close> and so leave the method: \<open>resp.json()\<close> on
  a body that is not JSON, and \<open>data.get\<close> on a document that is not an object. Both
  are raised before the method writes any field.
\<close>

datatype edge_exception = JSONDecodeError | AttributeError

definition json_get :: "json \<Rightarrow> string \<Rightarrow> edge_exception + json" where
  "json_get data k = (case data of JObj d \<Rightarrow> Inr (dict_get d k) | _ \<Rightarrow> Inl AttributeError)"

subsection \<open>EdgeState\<close>

record EdgeState =
  edge_id :: string
  cloud_url :: string
  token :: "string option"
  site_id :: json
  registered :: bool
  config :: json

text \<open>\<open>s.rstrip(c)\<close> for a one-character argument.\<close>

definition rstrip :: "char \<Rightarrow> string \<Rightarrow> string" where
  "rstrip c s = rev (dropWhile (\<lambda>x. x = c) (rev s))"

definition EdgeState_init :: "string \<Rightarrow> string \<Rightarrow> string option \<Rightarrow> EdgeState" where
  "EdgeState_init e url tok =
     \<lparr>edge_id = e, cloud_url = rstrip CHR ''/'' url, token = tok,
      site_id = JNull, registered = False, config = JNull\<rparr>"

text \<open>\<open>self.token\<close> as a condition: neither \<open>None\<close> nor the empty string.\<close>

definition has_token :: "EdgeState \<Rightarrow> bool" where
  "has_token st = (case token st of None \<Rightarrow> False | Some t \<Rightarrow> t \<noteq> [])"

definition register_request :: "EdgeState \<Rightarrow> string \<Rightarrow> http_request" where
  "register_request st tok =
     POST (cloud_url st @ ''/api/edge/register'')
          (JObj [(''edge_id'', JStr (edge_id st)), (''token'', JStr tok)])"

definition config_request :: "EdgeState \<Rightarrow> http_request" where
  "config_request st = GET (cloud_url st @ ''/api/edges/'' @ edge_id st @ ''/desired-config'')"

type_synonym outcome = "http_request list \<times> (edge_exception + EdgeState)"

definition register_with_cloud :: "client \<Rightarrow> EdgeState \<Rightarrow> outcome" where
  "register_with_cloud client st =
     (case token st of
        None \<Rightarrow> ([], Inr st)
      | Some tok \<Rightarrow>
          if tok = [] then ([], Inr st)
          else
            (let rq = register_request st tok in
             (case client rq of
                RequestError \<Rightarrow> ([rq], Inr st)
              | Response status body \<Rightarrow>
                  if \<not> is_success status then ([rq], Inr st)
                  else
                    (case body of
                       None \<Rightarrow> ([rq], Inl JSONDecodeError)
                     | Some data \<Rightarrow>
                         (case json_get data ''site_id'' of
                            Inl e \<Rightarrow> ([rq], Inl e)
                          | Inr v \<Rightarrow>
                              ([rq], Inr (st\<lparr>site_id := v, token := None,
                                             registered := True\<rparr>)))))))"

definition refresh_config :: "client \<Rightarrow> EdgeState \<Rightarrow> outcome" where
  "refresh_config client st =
     (if \<not> registered st \<or> \<not> truthy (site_id st) then ([], Inr st)
      else
        (let rq = config_request st in
         (case client rq of
            RequestError \<Rightarrow> ([rq], Inr st)
          | Response status body \<Rightarrow>
              if \<not> is_success status then ([rq], Inr st)
              else
                (case body of
                   None \<Rightarrow> ([rq], Inl JSONDecodeError)
                 | Some data \<Rightarrow> ([rq], Inr (st\<lparr>config := data\<rparr>))))))"

text \<open>
  Sequencing of two awaited steps: an exception of the first ends the task, otherwise
  the second runs from the state the first left.
\<close>

definition and_then :: "outcome \<Rightarrow> (EdgeState \<Rightarrow> outcome) \<Rightarrow> outcome" where
  "and_then r f =
     (case snd r of
        Inl e \<Rightarrow> (fst r, Inl e)
      | Inr st \<Rightarrow> (fst r @ fst (f st), snd (f st)))"

text \<open>One iteration of the \<open>while True\<close> loop of \<open>run_background_tasks\<close>.\<close>

definition tick :: "client \<Rightarrow> EdgeState \<Rightarrow> outcome" where
  "tick client st =
     and_then
       (if \<not> registered st \<and> has_token st then register_with_cloud client st
        else ([], Inr st))
       (refresh_config client)"

text \<open>
  The loop never returns by itself. \<open>ticks cs st\<close> is what has happened after one
  iteration per element of \<open>cs\<close>, the network of the \<open>i\<close>-th iteration being \<open>cs ! i\<close>;
  \<open>run_background_tasks\<close> puts the start-up attempt in front.
\<close>

fun ticks :: "client list \<Rightarrow> EdgeState \<Rightarrow> outcome" where
  "ticks [] st = ([], Inr st)"
| "ticks (c # cs) st = and_then (tick c st) (ticks cs)"

definition run_background_tasks :: "client \<Rightarrow> client list \<Rightarrow> EdgeState \<Rightarrow> outcome" where
  "run_background_tasks c0 cs st =
     and_then (if has_token st then register_with_cloud c0 st else ([], Inr st)) (ticks cs)"

section \<open>Example scenarios\<close>

text \<open>
  Two sites with a configuration each and one enrollment token each, and an edge that
  starts with the first token. They serve as concrete instances of the theorems below.
\<close>

definition demo_calls :: "api_call list" where
  "demo_calls =
     [SetDesiredConfig ''A'' [(''v'', JNum 1)],
      SetDesiredConfig ''B'' [(''v'', JNum 2)],
      GenerateToken ''A'' ''t1'',
      GenerateToken ''B'' ''t2'']"

definition demo :: cloud where
  "demo = exec initial demo_calls"

definition demo_bound :: cloud where
  "demo_bound = snd (register_edge (RegisterRequest ''e'' ''t1'') demo)"

definition boot :: EdgeState where
  "boot = EdgeState_init ''edge-1'' ''http://cloud-api:8080/'' (Some ''t1'')"

definition rejecting :: client where
  "rejecting rq =
     Response 400 (Some (JObj [(''detail'', JStr ''invalid or expired token'')]))"

definition unreachable :: client where
  "unreachable rq = RequestError"

definition answering :: "json \<Rightarrow> client" where
  "answering body rq = Response 200 (Some body)"

definition enrolled :: EdgeState where
  "enrolled = boot\<lparr>site_id := JStr ''A'', token := None, registered := True\<rparr>"

definition stuck :: EdgeState where
  "stuck = boot\<lparr>site_id := JNull, token := None, registered := True\<rparr>"

section \<open>Properties of the cloud API\<close>

lemmas handler_defs =
  health_def set_desired_config_def get_desired_config_def generate_token_def
  register_edge_def get_edge_config_def list_edges_def Let_def

subsection \<open>The example states, evaluated\<close>

lemma demo_eq:
  "demo =
     \<lparr>sites = [''A'' \<mapsto> [(''v'', JNum 1)], ''B'' \<mapsto> [(''v'', JNum 2)]],
      enrollment_tokens = [''t1'' \<mapsto> ''A'', ''t2'' \<mapsto> ''B''], edges = []\<rparr>"
  by (simp add: demo_def demo_calls_def initial_def handler_defs)

lemma demo_bound_eq:
  "demo_bound =
     \<lparr>sites = [''A'' \<mapsto> [(''v'', JNum 1)], ''B'' \<mapsto> [(''v'', JNum 2)]],
      enrollment_tokens = [''t2'' \<mapsto> ''B''],
      edges = [(''e'', \<lparr>entry_site_id = ''A'', entry_edge_id = ''e''\<rparr>)]\<rparr>"
  by (simp add: demo_bound_def demo_eq register_edge_def Let_def)

lemma boot_eq:
  "boot =
     \<lparr>edge_id = ''edge-1'', cloud_url = ''http://cloud-api:8080'', token = Some ''t1'',
      site_id = JNull, registered = False, config = JNull\<rparr>"
  by (simp add: boot_def EdgeState_init_def rstrip_def)

subsection \<open>Single calls\<close>

lemma register_edge_invalid:
  "enrollment_tokens s (req_token req) = None \<Longrightarrow>
   register_edge req s = (Inl (HTTPException 400 ''invalid or expired token''), s)"
  by (simp add: register_edge_def)

lemma register_edge_valid:
  "enrollment_tokens s (req_token req) = Some S \<Longrightarrow>
   register_edge req s =
     (Inr [(''site_id'', JStr S)],
      s\<lparr>enrollment_tokens := (enrollment_tokens s)(req_token req := None),
        edges := AList.update (req_edge_id req)
          \<lparr>entry_site_id = S, entry_edge_id = req_edge_id req\<rparr> (edges s)\<rparr>)"
  by (simp add: register_edge_def Let_def)

lemma register_edge_fails_iff:
  "isl (fst (register_edge req s)) \<longleftrightarrow> enrollment_tokens s (req_token req) = None"
  by (cases "enrollment_tokens s (req_token req)")
     (simp_all add: register_edge_invalid register_edge_valid)

lemma register_edge_returns:
  "fst (register_edge req s) = Inr r \<Longrightarrow>
   \<exists>S. enrollment_tokens s (req_token req) = Some S \<and> r = [(''site_id'', JStr S)]"
  by (cases "enrollment_tokens s (req_token req)")
     (auto simp: register_edge_invalid register_edge_valid)

lemma bound_site_register:
  "enrollment_tokens s (req_token req) = Some S \<Longrightarrow>
   bound_site (snd (register_edge req s)) (req_edge_id req) = Some S"
  by (simp add: register_edge_valid bound_site_def update_conv')

lemma get_edge_config_bound:
  "bound_site s e = Some S \<Longrightarrow> fst (get_edge_config e s) = fst (get_desired_config S s)"
  by (auto simp: get_edge_config_def get_desired_config_def bound_site_def
           split: option.splits)

subsection \<open>Runs\<close>

text \<open>A token that is not active stays so until \<open>uuid4\<close> draws it.\<close>

lemma token_stays_absent:
  "enrollment_tokens s t = None \<Longrightarrow> draws t cs = 0 \<Longrightarrow>
   enrollment_tokens (exec s cs) t = None"
proof (induction cs arbitrary: s)
  case Nil
  then show ?case by simp
next
  case (Cons c cs)
  from Cons.prems have "enrollment_tokens (snd (handle c s)) t = None"
    by (cases c)
       (auto simp: handler_defs draws_def split: option.splits if_splits)
  moreover from Cons.prems have "draws t cs = 0"
    by (auto simp: draws_def split: if_splits)
  ultimately show ?case using Cons.IH by simp
qed

text \<open>
  Each successful redemption of \<open>t\<close> uses up either the token that was active at the
  start or one later draw of \<open>t\<close>.
\<close>

lemma redemptions_bound:
  "redemptions t s cs \<le> (if enrollment_tokens s t = None then 0 else 1) + draws t cs"
proof (induction cs arbitrary: s)
  case Nil
  then show ?case by simp
next
  case (Cons c cs)
  show ?case
    using Cons.IH [of "snd (handle c s)"]
    by (cases c)
       (auto simp: handler_defs draws_def split: option.splits if_splits)
qed

text \<open>Only a successful registration of the same edge identifier moves a binding.\<close>

lemma bound_site_kept:
  "bound_site s e = Some S \<Longrightarrow> rebinds e s cs = 0 \<Longrightarrow> bound_site (exec s cs) e = Some S"
proof (induction cs arbitrary: s)
  case Nil
  then show ?case by simp
next
  case (Cons c cs)
  from Cons.prems have "bound_site (snd (handle c s)) e = Some S"
    by (cases c)
       (auto simp: handler_defs bound_site_def update_conv'
             split: option.splits if_splits)
  moreover from Cons.prems have "rebinds e (snd (handle c s)) cs = 0"
    by (auto split: if_splits)
  ultimately show ?case using Cons.IH by simp
qed

subsection \<open>Referential integrity\<close>

lemma set_update_cases:
  "p \<in> set (AList.update k v al) \<Longrightarrow> p = (k, v) \<or> p \<in> set al"
  by (induction al) (auto split: if_splits)

lemma sites_closed_handle: "sites_closed s \<Longrightarrow> sites_closed (snd (handle c s))"
proof (cases c)
  case (RegisterEdge req)
  assume inv: "sites_closed s"
  show ?thesis
  proof (cases "enrollment_tokens s (req_token req)")
    case None
    with inv RegisterEdge show ?thesis by (simp add: register_edge_def)
  next
    case (Some S)
    with inv have "sites s S \<noteq> None"
      by (auto simp: sites_closed_def)
    with inv Some RegisterEdge show ?thesis
      by (auto simp: register_edge_def sites_closed_def Let_def dest!: set_update_cases)
  qed
qed (auto simp: handler_defs sites_closed_def split: option.splits)

lemma sites_closed_exec: "sites_closed s \<Longrightarrow> sites_closed (exec s cs)"
  by (induction cs arbitrary: s) (auto simp: sites_closed_handle)

lemma sites_closed_initial: "sites_closed initial"
  by (simp add: sites_closed_def initial_def)

lemma no_site_not_found:
  "sites_closed s \<Longrightarrow>
   fst (get_edge_config e s) \<noteq> Inl (HTTPException 404 ''site not found'')"
  by (auto simp: get_edge_config_def sites_closed_def split: option.splits
           dest!: map_of_SomeD)

section \<open>Claims about the cloud API\<close>

text \<open>
  C1, at-most-once redemption. Once a \<open>register_edge\<close> call carrying a token has
  succeeded, every later \<open>register_edge\<close> call carrying the same token fails with
  \<open>HTTPException 400 "invalid or expired token"\<close>, whatever calls run in between, as
  long as \<open>uuid4\<close> does not draw that token again. Counted over a whole run that
  starts where the token is not active (the empty stores, for one): a token drawn at
  most once is redeemed at most once.
\<close>

theorem at_most_once_redemption:
  "(fst (register_edge req s) = Inr r \<and> req_token req' = req_token req \<and>
    draws (req_token req) cs = 0 \<longrightarrow>
      fst (register_edge req' (exec (snd (register_edge req s)) cs))
        = Inl (HTTPException 400 ''invalid or expired token''))
   \<and> (enrollment_tokens s' t = None \<and> draws t ds \<le> 1 \<longrightarrow> redemptions t s' ds \<le> 1)"
proof (intro conjI impI)
  assume a: "fst (register_edge req s) = Inr r \<and> req_token req' = req_token req \<and>
    draws (req_token req) cs = 0"
  then obtain S where S: "enrollment_tokens s (req_token req) = Some S"
    using register_edge_returns by blast
  then have "enrollment_tokens (snd (register_edge req s)) (req_token req) = None"
    by (simp add: register_edge_valid)
  with a have "enrollment_tokens (exec (snd (register_edge req s)) cs) (req_token req') = None"
    by (simp add: token_stays_absent)
  then show "fst (register_edge req' (exec (snd (register_edge req s)) cs))
        = Inl (HTTPException 400 ''invalid or expired token'')"
    by (simp add: register_edge_invalid)
next
  assume b: "enrollment_tokens s' t = None \<and> draws t ds \<le> 1"
  then have "redemptions t s' ds \<le> draws t ds"
    using redemptions_bound [of t s' ds] by simp
  with b show "redemptions t s' ds \<le> 1" by simp
qed

theorem at_most_once_redemption_witness:
  "fst (register_edge (RegisterRequest ''e'' ''t1'') demo) = Inr [(''site_id'', JStr ''A'')]
   \<and> draws ''t1'' [GenerateToken ''A'' ''t3'', SetDesiredConfig ''A'' []] = 0
   \<and> fst (register_edge (RegisterRequest ''e2'' ''t1'')
        (exec (snd (register_edge (RegisterRequest ''e'' ''t1'') demo))
           [GenerateToken ''A'' ''t3'', SetDesiredConfig ''A'' []]))
       = Inl (HTTPException 400 ''invalid or expired token'')
   \<and> enrollment_tokens initial ''t1'' = None
   \<and> draws ''t1'' (demo_calls @ [RegisterEdge (RegisterRequest ''e'' ''t1''),
         RegisterEdge (RegisterRequest ''e2'' ''t1'')]) \<le> 1
   \<and> redemptions ''t1'' initial (demo_calls @ [RegisterEdge (RegisterRequest ''e'' ''t1''),
         RegisterEdge (RegisterRequest ''e2'' ''t1'')]) \<le> 1"
  using at_most_once_redemption
    [of "RegisterRequest ''e'' ''t1''" demo "[(''site_id'', JStr ''A'')]"
        "RegisterRequest ''e2'' ''t1''" "[GenerateToken ''A'' ''t3'', SetDesiredConfig ''A'' []]"
        initial "''t1''"
        "demo_calls @ [RegisterEdge (RegisterRequest ''e'' ''t1''),
           RegisterEdge (RegisterRequest ''e2'' ''t1'')]"]
  by (simp add: demo_eq demo_calls_def draws_def initial_def handler_defs)

text \<open>
  C2, register failure atomicity. A \<open>register_edge\<close> call whose token is not in the
  token store fails with \<open>HTTPException 400 "invalid or expired token"\<close> and leaves
  \<open>sites\<close>, \<open>enrollment_tokens\<close> and \<open>edges\<close> as they were.
\<close>

theorem register_failure_atomic:
  "enrollment_tokens s (req_token req) = None \<Longrightarrow>
   register_edge req s = (Inl (HTTPException 400 ''invalid or expired token''), s)"
  by (rule register_edge_invalid)

theorem register_failure_atomic_witness:
  "enrollment_tokens demo (req_token (RegisterRequest ''e'' ''t3'')) = None \<and>
   register_edge (RegisterRequest ''e'' ''t3'') demo
     = (Inl (HTTPException 400 ''invalid or expired token''), demo)"
  using register_failure_atomic [of demo "RegisterRequest ''e'' ''t3''"]
  by (simp add: demo_eq)

text \<open>
  C3 as stated does not hold: after edge \<open>e\<close> has registered with \<open>t1\<close> and been bound
  to site \<open>A\<close>, a registration of \<open>e\<close> with \<open>t2\<close> moves it to site \<open>B\<close>, and
  \<open>get_edge_config\<close> then answers with the configuration of \<open>B\<close>.
\<close>

theorem binding_stability_counterexample:
  "fst (register_edge (RegisterRequest ''e'' ''t1'') demo) = Inr [(''site_id'', JStr ''A'')]
   \<and> bound_site (exec demo_bound [RegisterEdge (RegisterRequest ''e'' ''t2'')]) ''e''
       \<noteq> Some ''A''
   \<and> fst (get_edge_config ''e'' (exec demo_bound [RegisterEdge (RegisterRequest ''e'' ''t2'')]))
       \<noteq> fst (get_desired_config ''A''
             (exec demo_bound [RegisterEdge (RegisterRequest ''e'' ''t2'')]))"
  by (simp add: demo_eq demo_bound_eq handler_defs bound_site_def)

text \<open>
  C3, binding stability, amended. Once \<open>register_edge\<close> for an edge has succeeded
  returning site \<open>S\<close>, then after any calls among which no \<open>register_edge\<close> for the same
  edge identifier succeeds, the edge is still bound to \<open>S\<close> and \<open>get_edge_config\<close>
  answers exactly as \<open>get_desired_config\<close> for \<open>S\<close> does in that state, so it follows
  every overwrite of the configuration of \<open>S\<close>.
\<close>

theorem binding_stable_until_rebound:
  assumes "fst (register_edge req s) = Inr [(''site_id'', JStr S)]"
    and "rebinds (req_edge_id req) (snd (register_edge req s)) cs = 0"
  shows "bound_site (exec (snd (register_edge req s)) cs) (req_edge_id req) = Some S \<and>
     fst (get_edge_config (req_edge_id req) (exec (snd (register_edge req s)) cs))
       = fst (get_desired_config S (exec (snd (register_edge req s)) cs))"
proof -
  from assms(1) have "enrollment_tokens s (req_token req) = Some S"
    using register_edge_returns by fastforce
  then have "bound_site (snd (register_edge req s)) (req_edge_id req) = Some S"
    by (rule bound_site_register)
  from this assms(2)
  have b: "bound_site (exec (snd (register_edge req s)) cs) (req_edge_id req) = Some S"
    by (rule bound_site_kept)
  from b get_edge_config_bound [OF b] show ?thesis by simp
qed

theorem binding_stable_until_rebound_witness:
  "fst (register_edge (RegisterRequest ''e'' ''t1'') demo) = Inr [(''site_id'', JStr ''A'')]
   \<and> rebinds ''e'' (snd (register_edge (RegisterRequest ''e'' ''t1'') demo))
        [SetDesiredConfig ''A'' [(''v'', JNum 3)],
         RegisterEdge (RegisterRequest ''e2'' ''t2''),
         RegisterEdge (RegisterRequest ''e'' ''t1'')] = 0
   \<and> bound_site (exec (snd (register_edge (RegisterRequest ''e'' ''t1'') demo))
        [SetDesiredConfig ''A'' [(''v'', JNum 3)],
         RegisterEdge (RegisterRequest ''e2'' ''t2''),
         RegisterEdge (RegisterRequest ''e'' ''t1'')]) ''e'' = Some ''A''
   \<and> fst (get_edge_config ''e'' (exec (snd (register_edge (RegisterRequest ''e'' ''t1'') demo))
        [SetDesiredConfig ''A'' [(''v'', JNum 3)],
         RegisterEdge (RegisterRequest ''e2'' ''t2''),
         RegisterEdge (RegisterRequest ''e'' ''t1'')])) = Inr [(''v'', JNum 3)]"
  using binding_stable_until_rebound
    [of "RegisterRequest ''e'' ''t1''" demo "''A''"
        "[SetDesiredConfig ''A'' [(''v'', JNum 3)],
          RegisterEdge (RegisterRequest ''e2'' ''t2''),
          RegisterEdge (RegisterRequest ''e'' ''t1'')]"]
  by (simp add: demo_eq handler_defs bound_site_def)

text \<open>
  C4, re-registration overwrite. For an edge already bound to a site \<open>S1\<close>, a
  \<open>register_edge\<close> call with a token that is active for site \<open>S2\<close> succeeds, returns
  \<open>S2\<close> and leaves the edge bound to \<open>S2\<close>. Binding adds no failure of its own:
  \<open>register_edge\<close> fails exactly when the token is not in the token store.
\<close>

theorem reregistration_overwrites:
  assumes "bound_site s e = Some S1"
    and "enrollment_tokens s t2 = Some S2"
  shows "fst (register_edge (RegisterRequest e t2) s) = Inr [(''site_id'', JStr S2)]
     \<and> bound_site (snd (register_edge (RegisterRequest e t2) s)) e = Some S2
     \<and> (isl (fst (register_edge req s')) \<longleftrightarrow> enrollment_tokens s' (req_token req) = None)"
proof -
  from assms(2) have v: "enrollment_tokens s (req_token (RegisterRequest e t2)) = Some S2"
    by simp
  have "fst (register_edge (RegisterRequest e t2) s) = Inr [(''site_id'', JStr S2)]"
    using register_edge_valid [OF v] by simp
  moreover have "bound_site (snd (register_edge (RegisterRequest e t2) s)) e = Some S2"
    using bound_site_register [OF v] by simp
  ultimately show ?thesis
    by (simp add: register_edge_fails_iff)
qed

theorem reregistration_overwrites_witness:
  "bound_site demo_bound ''e'' = Some ''A'' \<and> enrollment_tokens demo_bound ''t2'' = Some ''B''
   \<and> fst (register_edge (RegisterRequest ''e'' ''t2'') demo_bound) = Inr [(''site_id'', JStr ''B'')]
   \<and> bound_site (snd (register_edge (RegisterRequest ''e'' ''t2'') demo_bound)) ''e'' = Some ''B''"
  using reregistration_overwrites [of demo_bound "''e''" "''A''" "''t2''" "''B''"]
  by (simp add: demo_bound_eq bound_site_def)

text \<open>
  C7, error taxonomy of \<open>get_edge_config\<close>. Without a binding for the edge it raises
  \<open>HTTPException 404 "edge not registered"\<close>; with a binding to a site that has no
  stored configuration it raises \<open>HTTPException 404 "site not found"\<close>; otherwise it
  returns the stored configuration of the bound site. It never changes the state, and
  the two exceptions are different values (same status code, different detail).
\<close>

theorem get_edge_config_taxonomy:
  "get_edge_config e s =
     (case bound_site s e of
        None \<Rightarrow> (Inl (HTTPException 404 ''edge not registered''), s)
      | Some S \<Rightarrow>
          (case sites s S of
             None \<Rightarrow> (Inl (HTTPException 404 ''site not found''), s)
           | Some C \<Rightarrow> (Inr C, s)))
   \<and> HTTPException 404 ''edge not registered'' \<noteq> HTTPException 404 ''site not found''"
  by (simp add: get_edge_config_def bound_site_def split: option.splits)

text \<open>
  C8, round trip and idempotence of the configuration store. \<open>set_desired_config\<close>
  always answers \<open>{"status": "saved"}\<close>; \<open>get_desired_config\<close> right after it returns
  the configuration just written; writing the same configuration a second time leaves
  the state as the first write left it.
\<close>

theorem config_store_roundtrip:
  "fst (set_desired_config S C s) = Inr [(''status'', JStr ''saved'')] \<and>
   fst (get_desired_config S (snd (set_desired_config S C s))) = Inr C \<and>
   snd (set_desired_config S C (snd (set_desired_config S C s)))
     = snd (set_desired_config S C s)"
  by (simp add: set_desired_config_def get_desired_config_def)

text \<open>
  C9, referential integrity. In every state reached from the empty stores by API calls,
  the site of every active enrollment token and of every entry of \<open>edges\<close> has a
  configuration in \<open>sites\<close>; so \<open>get_edge_config\<close> never raises
  \<open>HTTPException 404 "site not found"\<close> there.
\<close>

theorem reachable_sites_closed:
  "(enrollment_tokens (exec initial cs) t = Some S \<longrightarrow> sites (exec initial cs) S \<noteq> None)
   \<and> ((e, b) \<in> set (edges (exec initial cs)) \<longrightarrow>
        sites (exec initial cs) (entry_site_id b) \<noteq> None)
   \<and> fst (get_edge_config e' (exec initial cs)) \<noteq> Inl (HTTPException 404 ''site not found'')"
proof -
  have inv: "sites_closed (exec initial cs)"
    using sites_closed_initial by (rule sites_closed_exec)
  then show ?thesis
    using no_site_not_found [OF inv, of e'] by (fastforce simp: sites_closed_def)
qed

theorem reachable_sites_closed_witness:
  "enrollment_tokens (exec initial (demo_calls @ [RegisterEdge (RegisterRequest ''e'' ''t1'')])) ''t2''
     = Some ''B''
   \<and> sites (exec initial (demo_calls @ [RegisterEdge (RegisterRequest ''e'' ''t1'')])) ''B'' \<noteq> None
   \<and> (''e'', \<lparr>entry_site_id = ''A'', entry_edge_id = ''e''\<rparr>)
       \<in> set (edges (exec initial (demo_calls @ [RegisterEdge (RegisterRequest ''e'' ''t1'')])))
   \<and> sites (exec initial (demo_calls @ [RegisterEdge (RegisterRequest ''e'' ''t1'')])) ''A'' \<noteq> None
   \<and> fst (get_edge_config ''e''
        (exec initial (demo_calls @ [RegisterEdge (RegisterRequest ''e'' ''t1'')])))
       = Inr [(''v'', JNum 1)]"
  using reachable_sites_closed
    [of "demo_calls @ [RegisterEdge (RegisterRequest ''e'' ''t1'')]" "''t2''" "''B''"
        "''e''" "\<lparr>entry_site_id = ''A'', entry_edge_id = ''e''\<rparr>" "''e''"]
  by (simp add: demo_calls_def initial_def handler_defs)


section \<open>Claims about the edge controller\<close>

lemma register_with_cloud_sent:
  "token st = Some tok \<Longrightarrow> tok \<noteq> [] \<Longrightarrow>
   fst (register_with_cloud c st) = [register_request st tok]"
  by (auto simp: register_with_cloud_def Let_def
           split: http_outcome.splits option.splits sum.splits)

lemma register_with_cloud_failure:
  "token st = Some tok \<Longrightarrow> tok \<noteq> [] \<Longrightarrow>
   raises_http_error (c (register_request st tok)) \<Longrightarrow>
   register_with_cloud c st = ([register_request st tok], Inr st)"
  by (cases "c (register_request st tok)") (auto simp: register_with_cloud_def Let_def)

lemma refresh_config_idle:
  "\<not> registered st \<or> \<not> truthy (site_id st) \<Longrightarrow> refresh_config c st = ([], Inr st)"
  by (auto simp: refresh_config_def)

lemma tick_idle:
  "registered st \<Longrightarrow> \<not> truthy (site_id st) \<Longrightarrow> tick c st = ([], Inr st)"
  by (simp add: tick_def and_then_def refresh_config_idle)

lemma ticks_idle:
  "registered st \<Longrightarrow> \<not> truthy (site_id st) \<Longrightarrow> ticks cs st = ([], Inr st)"
  by (induction cs) (simp_all add: tick_idle and_then_def)

text \<open>
  C5, retry safety on the edge. For an edge state that holds a token, when the
  registration request raises an \<open>httpx.HTTPError\<close> (the call itself fails, or the
  status is not 2xx, as with the cloud's 400 for an invalid token),
  \<open>register_with_cloud\<close> sends that one request and leaves every field as it was:
  the token is not cleared, \<open>registered\<close> and \<open>site_id\<close> keep their values. If the edge
  is unregistered, the next loop iteration begins by sending the identical request.
\<close>

theorem register_retry_safe:
  assumes "token st = Some tok" and "tok \<noteq> []"
    and "raises_http_error (c (register_request st tok))"
  shows "register_with_cloud c st = ([register_request st tok], Inr st)
     \<and> (\<not> registered st \<longrightarrow> take 1 (fst (tick c' st)) = [register_request st tok])
     \<and> raises_http_error (Response 400 body)"
proof -
  have a: "register_with_cloud c st = ([register_request st tok], Inr st)"
    using assms by (rule register_with_cloud_failure)
  have b: "take 1 (fst (tick c' st)) = [register_request st tok]" if "\<not> registered st"
    using that assms(1,2) register_with_cloud_sent [OF assms(1,2), of c']
    by (auto simp: tick_def and_then_def has_token_def split: sum.splits)
  have "raises_http_error (Response 400 body)"
    by (simp add: is_success_def)
  with a b show ?thesis by blast
qed

theorem register_retry_safe_witness:
  "token boot = Some ''t1'' \<and> ''t1'' \<noteq> []
   \<and> raises_http_error (rejecting (register_request boot ''t1''))
   \<and> \<not> registered boot
   \<and> register_with_cloud rejecting boot = ([register_request boot ''t1''], Inr boot)
   \<and> take 1 (fst (tick unreachable boot)) = [register_request boot ''t1'']"
  using register_retry_safe [of boot "''t1''" rejecting unreachable]
  by (simp add: boot_eq rejecting_def is_success_def)

text \<open>
  C6, refresh and the cached configuration. When the configuration request raises an
  \<open>httpx.HTTPError\<close>, \<open>refresh_config\<close> leaves the whole edge state, the cached
  configuration included, as it was. When a registered edge with a site receives a 2xx
  response with a JSON body, the cached configuration becomes that body and no other
  field changes.
\<close>

theorem refresh_config_frame:
  "(raises_http_error (c (config_request st)) \<longrightarrow> snd (refresh_config c st) = Inr st)
   \<and> (registered st \<and> truthy (site_id st) \<and>
      c (config_request st) = Response status (Some body) \<and> is_success status \<longrightarrow>
        refresh_config c st = ([config_request st], Inr (st\<lparr>config := body\<rparr>)))"
  by (cases "c (config_request st)") (auto simp: refresh_config_def Let_def)

theorem refresh_config_frame_witness:
  "raises_http_error (unreachable (config_request enrolled))
   \<and> snd (refresh_config unreachable enrolled) = Inr enrolled
   \<and> registered enrolled \<and> truthy (site_id enrolled)
   \<and> answering (JObj [(''v'', JNum 1)]) (config_request enrolled)
       = Response 200 (Some (JObj [(''v'', JNum 1)]))
   \<and> is_success 200
   \<and> refresh_config (answering (JObj [(''v'', JNum 1)])) enrolled
       = ([config_request enrolled], Inr (enrolled\<lparr>config := JObj [(''v'', JNum 1)]\<rparr>))"
  using refresh_config_frame [of unreachable enrolled 200 "JObj [(''v'', JNum 1)]"]
    refresh_config_frame [of "answering (JObj [(''v'', JNum 1)])" enrolled 200
      "JObj [(''v'', JNum 1)]"]
  by (simp add: enrolled_def boot_eq unreachable_def answering_def is_success_def)

text \<open>
  C10, registration answered without a site. When the registration request of an edge
  holding a token gets a 2xx response whose JSON object has no \<open>"site_id"\<close> key,
  \<open>register_with_cloud\<close> sets \<open>registered\<close>, clears the token and leaves \<open>site_id\<close> at
  \<open>None\<close>. From that state \<open>refresh_config\<close> returns at once without sending a request,
  whatever the network would answer, and so does every later loop iteration: the state
  never changes again.
\<close>

theorem register_without_site_stuck:
  assumes "token st = Some tok" and "tok \<noteq> []"
    and "c (register_request st tok) = Response status (Some (JObj data))"
    and "is_success status"
    and "map_of data ''site_id'' = None"
  shows "snd (register_with_cloud c st)
       = Inr (st\<lparr>site_id := JNull, token := None, registered := True\<rparr>)
    \<and> refresh_config c' (st\<lparr>site_id := JNull, token := None, registered := True\<rparr>)
       = ([], Inr (st\<lparr>site_id := JNull, token := None, registered := True\<rparr>))
    \<and> ticks cs (st\<lparr>site_id := JNull, token := None, registered := True\<rparr>)
       = ([], Inr (st\<lparr>site_id := JNull, token := None, registered := True\<rparr>))"
  using assms
  by (simp add: register_with_cloud_def Let_def json_get_def dict_get_def
        refresh_config_idle ticks_idle)

theorem register_without_site_stuck_witness:
  "token boot = Some ''t1'' \<and> ''t1'' \<noteq> []
   \<and> answering (JObj []) (register_request boot ''t1'') = Response 200 (Some (JObj []))
   \<and> is_success 200 \<and> map_of ([] :: dict) ''site_id'' = None
   \<and> snd (register_with_cloud (answering (JObj [])) boot) = Inr stuck
   \<and> refresh_config (answering (JObj [(''v'', JNum 1)])) stuck = ([], Inr stuck)
   \<and> ticks [answering (JObj [(''v'', JNum 1)]), unreachable] stuck = ([], Inr stuck)"
  using register_without_site_stuck
    [of boot "''t1''" "answering (JObj [])" 200 "[]" "answering (JObj [(''v'', JNum 1)])"
        "[answering (JObj [(''v'', JNum 1)]), unreachable]"]
  by (simp add: stuck_def boot_eq answering_def is_success_def)


end
